theory Spec2Isabelle
  imports Complex_Main "HOL-Library.Word" "HOL-Library.AList"
begin

section \<open>JavaScript values\<close>

text \<open>
  A JavaScript string is a sequence of 16-bit code units; \<open>slice\<close> and \<open>length\<close>
  count code units. \<open>str\<close> turns a literal of the theory into such a sequence.
\<close>

type_synonym jsstring = "16 word list"

definition str :: "string \<Rightarrow> jsstring" where
  "str s = map (\<lambda>c. of_nat (of_char c)) s"

text \<open>
  A JavaScript number is NaN, an infinity or a finite number. The handlers only compare
  numbers (\<open>Math.min\<close>, \<open>Math.max\<close>, truthiness), which is exact on doubles, so a finite
  number carries its real value; negative zero is not distinguished from zero
  (\<open>Math.max(0, -0)\<close> is \<open>0\<close> and \<open>-0 || 0\<close> is \<open>0\<close>).
\<close>

datatype jsnum = NaN | NegInf | Fin real | PosInf

text \<open>
  A payload received from a client is a JSON value, or \<open>undefined\<close> when the client sent
  none. An object is its table of own properties; every property value of a received object
  is again such a value, never a function.
\<close>

datatype jsval =
    Undefined
  | Null
  | Bool bool
  | Number jsnum
  | String jsstring
  | Array "jsval list"
  | Object "(jsstring \<times> jsval) list"

datatype error = TypeError

text \<open>\<open>ToBoolean\<close>: the falsy values are undefined, null, false, 0, NaN and the empty string.\<close>

fun ToBoolean :: "jsval \<Rightarrow> bool" where
  "ToBoolean Undefined = False"
| "ToBoolean Null = False"
| "ToBoolean (Bool b) = b"
| "ToBoolean (Number n) = (n \<noteq> NaN \<and> n \<noteq> Fin 0)"
| "ToBoolean (String s) = (s \<noteq> [])"
| "ToBoolean (Array xs) = True"
| "ToBoolean (Object fs) = True"

text \<open>\<open>a || b\<close> is \<open>a\<close> when \<open>a\<close> is truthy and \<open>b\<close> otherwise.\<close>

definition or_else :: "jsval \<Rightarrow> jsval \<Rightarrow> jsval" where
  "or_else a b = (if ToBoolean a then a else b)"

text \<open>
  \<open>v.name\<close> for the property names the handlers read (\<open>x\<close>, \<open>y\<close>, \<open>message\<close>): reading a
  property of undefined or null throws; an object yields its own property or undefined;
  booleans, numbers, strings and arrays have no property of these names.
\<close>

fun get_prop :: "jsval \<Rightarrow> jsstring \<Rightarrow> error + jsval" where
  "get_prop Undefined name = Inl TypeError"
| "get_prop Null name = Inl TypeError"
| "get_prop (Object fs) name = Inr (case map_of fs name of None \<Rightarrow> Undefined | Some v \<Rightarrow> v)"
| "get_prop v name = Inr Undefined"

subsection \<open>String to number\<close>

definition StrWhiteSpaceChar :: "16 word \<Rightarrow> bool" where
  "StrWhiteSpaceChar c \<longleftrightarrow>
     c \<in> {0x09, 0x0A, 0x0B, 0x0C, 0x0D, 0x20, 0xA0, 0x1680, 0x2028, 0x2029, 0x202F, 0x205F,
          0x3000, 0xFEFF} \<or> (0x2000 \<le> c \<and> c \<le> 0x200A)"

definition trim :: "jsstring \<Rightarrow> jsstring" where
  "trim s = rev (dropWhile StrWhiteSpaceChar (rev (dropWhile StrWhiteSpaceChar s)))"

text \<open>The value of a digit in a base up to 16, if the code unit is one.\<close>

definition digit_value :: "nat \<Rightarrow> 16 word \<Rightarrow> nat option" where
  "digit_value b c =
     (let v = (if 0x30 \<le> c \<and> c \<le> 0x39 then unat c - 0x30
               else if 0x61 \<le> c \<and> c \<le> 0x66 then unat c - 0x61 + 10
               else if 0x41 \<le> c \<and> c \<le> 0x46 then unat c - 0x41 + 10
               else 16)
      in if v < b then Some v else None)"

definition is_digit :: "nat \<Rightarrow> 16 word \<Rightarrow> bool" where
  "is_digit b c \<longleftrightarrow> digit_value b c \<noteq> None"

definition digits_value :: "nat \<Rightarrow> jsstring \<Rightarrow> nat" where
  "digits_value b ds = foldl (\<lambda>acc c. acc * b + (case digit_value b c of Some v \<Rightarrow> v | None \<Rightarrow> 0)) 0 ds"

text \<open>\<open>0x\<close>, \<open>0o\<close> and \<open>0b\<close> literals: no sign, at least one digit.\<close>

definition NonDecimalIntegerLiteral :: "jsstring \<Rightarrow> real option" where
  "NonDecimalIntegerLiteral t =
     (case t of
        z # p # ds \<Rightarrow>
          (let b = (if p = 0x78 \<or> p = 0x58 then 16
                    else if p = 0x6F \<or> p = 0x4F then 8
                    else if p = 0x62 \<or> p = 0x42 then 2 else (0::nat))
           in if z = 0x30 \<and> b \<noteq> 0 \<and> ds \<noteq> [] \<and> list_all (is_digit b) ds
              then Some (real (digits_value b ds)) else None)
      | _ \<Rightarrow> None)"

text \<open>
  Digits, an optional fraction and an optional exponent; at least one digit before or after
  the point.
\<close>

definition ExponentPart :: "jsstring \<Rightarrow> int option" where
  "ExponentPart t =
     (case t of
        [] \<Rightarrow> Some 0
      | e # rest \<Rightarrow>
          if e = 0x65 \<or> e = 0x45 then
            (let (sgn, ds) = (case rest of
                                [] \<Rightarrow> (1, [])
                              | s # ds' \<Rightarrow> if s = 0x2B then (1, ds') else if s = 0x2D then (- 1, ds')
                                          else (1::int, rest))
             in if ds \<noteq> [] \<and> list_all (is_digit 10) ds then Some (sgn * int (digits_value 10 ds))
                else None)
          else None)"

definition scale10 :: "real \<Rightarrow> int \<Rightarrow> real" where
  "scale10 m e = (if 0 \<le> e then m * 10 ^ nat e else m / 10 ^ nat (- e))"

definition DecimalDigitsLiteral :: "jsstring \<Rightarrow> real option" where
  "DecimalDigitsLiteral t =
     (let ip = takeWhile (is_digit 10) t;
          r1 = dropWhile (is_digit 10) t;
          dot = (r1 \<noteq> [] \<and> hd r1 = 0x2E);
          fp = (if dot then takeWhile (is_digit 10) (tl r1) else []);
          r2 = (if dot then dropWhile (is_digit 10) (tl r1) else r1)
      in if ip = [] \<and> fp = [] then None
         else (case ExponentPart r2 of
                 None \<Rightarrow> None
               | Some e \<Rightarrow>
                   Some (scale10 (real (digits_value 10 ip)
                                  + real (digits_value 10 fp) / 10 ^ length fp) e)))"

definition StrUnsignedDecimalLiteral :: "jsstring \<Rightarrow> jsnum" where
  "StrUnsignedDecimalLiteral t =
     (if t = str ''Infinity'' then PosInf
      else (case DecimalDigitsLiteral t of None \<Rightarrow> NaN | Some r \<Rightarrow> Fin r))"

fun negate :: "jsnum \<Rightarrow> jsnum" where
  "negate NaN = NaN"
| "negate NegInf = PosInf"
| "negate (Fin r) = Fin (- r)"
| "negate PosInf = NegInf"

text \<open>
  \<open>StringToNumber\<close>: white space is trimmed, the empty string is 0, anything that is not a
  numeric literal is NaN. The finite result is the value of the literal (the language rounds
  it to the nearest double, which keeps its order against 0, 350 and 750).
\<close>

definition StringToNumber :: "jsstring \<Rightarrow> jsnum" where
  "StringToNumber s =
     (let t = trim s in
      if t = [] then Fin 0
      else (case NonDecimalIntegerLiteral t of
              Some r \<Rightarrow> Fin r
            | None \<Rightarrow>
                if hd t = 0x2B then StrUnsignedDecimalLiteral (tl t)
                else if hd t = 0x2D then negate (StrUnsignedDecimalLiteral (tl t))
                else StrUnsignedDecimalLiteral t))"

subsection \<open>Conversion to a number\<close>

text \<open>
  Converting an object or an array to a string or a number goes through its \<open>toString\<close>.
  A received object whose own property table has a \<open>toString\<close> entry hides the inherited
  method behind a value that cannot be called, and the conversion throws; an array converts
  its elements in turn.
\<close>

fun ToString_throws :: "jsval \<Rightarrow> bool" where
  "ToString_throws (Object fs) = (map_of fs (str ''toString'') \<noteq> None)"
| "ToString_throws (Array xs) = list_ex ToString_throws xs"
| "ToString_throws v = False"

text \<open>
  The number read back from the text an array element contributes to \<open>join\<close>: undefined and
  null contribute the empty string, a number its own digits, a nested array its own join;
  two or more elements are separated by a comma, which no numeric literal contains.
\<close>

fun joined_number :: "jsval \<Rightarrow> jsnum" where
  "joined_number Undefined = Fin 0"
| "joined_number Null = Fin 0"
| "joined_number (Bool b) = NaN"
| "joined_number (Number n) = n"
| "joined_number (String s) = StringToNumber s"
| "joined_number (Array []) = Fin 0"
| "joined_number (Array [v]) = joined_number v"
| "joined_number (Array (v # v' # vs)) = NaN"
| "joined_number (Object fs) = NaN"

fun ToNumber :: "jsval \<Rightarrow> error + jsnum" where
  "ToNumber Undefined = Inr NaN"
| "ToNumber Null = Inr (Fin 0)"
| "ToNumber (Bool b) = Inr (Fin (if b then 1 else 0))"
| "ToNumber (Number n) = Inr n"
| "ToNumber (String s) = Inr (StringToNumber s)"
| "ToNumber (Array xs) =
     (if ToString_throws (Array xs) then Inl TypeError else Inr (joined_number (Array xs)))"
| "ToNumber (Object fs) =
     (if ToString_throws (Object fs) then Inl TypeError else Inr NaN)"

fun num_le :: "jsnum \<Rightarrow> jsnum \<Rightarrow> bool" where
  "num_le NegInf b = (b \<noteq> NaN)"
| "num_le (Fin a) (Fin b) = (a \<le> b)"
| "num_le (Fin a) PosInf = True"
| "num_le PosInf PosInf = True"
| "num_le a b = False"

text \<open>\<open>Math.min\<close> and \<open>Math.max\<close> of two numbers: NaN as soon as one of them is NaN.\<close>

definition Math_min :: "jsnum \<Rightarrow> jsnum \<Rightarrow> jsnum" where
  "Math_min a b = (if a = NaN \<or> b = NaN then NaN else if num_le a b then a else b)"

definition Math_max :: "jsnum \<Rightarrow> jsnum \<Rightarrow> jsnum" where
  "Math_max a b = (if a = NaN \<or> b = NaN then NaN else if num_le a b then b else a)"

text \<open>\<open>m.slice(0, 200)\<close>: strings and arrays have the method; on anything else the call throws.\<close>

fun slice_0_200 :: "jsval \<Rightarrow> error + jsval" where
  "slice_0_200 (String s) = Inr (String (take 200 s))"
| "slice_0_200 (Array xs) = Inr (Array (take 200 xs))"
| "slice_0_200 v = Inl TypeError"

subsection \<open>Map and Set\<close>

text \<open>
  A \<open>Map\<close> is the list of its entries and a \<open>Set\<close> the list of its elements, both in insertion
  order: \<open>set\<close> replaces the value of a present key where it stands and appends an absent one,
  \<open>add\<close> appends an absent element.
\<close>

definition Map_get :: "('k \<times> 'v) list \<Rightarrow> 'k \<Rightarrow> 'v option" where
  "Map_get m k = map_of m k"

definition Map_set :: "('k \<times> 'v) list \<Rightarrow> 'k \<Rightarrow> 'v \<Rightarrow> ('k \<times> 'v) list" where
  "Map_set m k v = AList.update k v m"

definition Map_delete :: "('k \<times> 'v) list \<Rightarrow> 'k \<Rightarrow> ('k \<times> 'v) list" where
  "Map_delete m k = AList.delete k m"

definition Set_add :: "'a list \<Rightarrow> 'a \<Rightarrow> 'a list" where
  "Set_add s a = (if a \<in> set s then s else s @ [a])"

definition Set_delete :: "'a list \<Rightarrow> 'a \<Rightarrow> 'a list" where
  "Set_delete s a = removeAll a s"

section \<open>The registries and the transport\<close>

text \<open>
  The player object of \<open>register-player\<close>. The fields \<open>id\<close>, \<open>x\<close> and \<open>y\<close> of the source are
  \<open>player_id\<close>, \<open>pos_x\<close> and \<open>pos_y\<close> here; \<open>room\<close> is \<open>None\<close> for \<open>null\<close>; \<open>lastUpdate\<close> is a
  reading of \<open>Date.now()\<close>, in milliseconds.
\<close>

record avatar =
  body :: jsstring
  head :: jsstring
  accessory :: jsstring

record player =
  player_id :: jsstring
  username :: jsstring
  avatar :: avatar
  pos_x :: jsnum
  pos_y :: jsnum
  room :: "jsstring option"
  lastUpdate :: int

text \<open>
  The payload of \<open>register-player\<close>, at the type the interface documents: an object with an
  optional user name and an optional avatar, the user name a string. (The source stores any
  truthy user name; one that cannot be turned into a string would make the log lines of the
  handlers throw. Such registrations are outside this model.) A room identity is a string.
\<close>

record player_data =
  data_username :: "jsstring option"
  data_avatar :: "avatar option"

text \<open>
  What the server sends. \<open>Unicast sid\<close> is \<open>socket.emit\<close> on the connection \<open>sid\<close>;
  \<open>Broadcast r to\<close> is an emission to the transport's room \<open>r\<close>, with the connections \<open>to\<close>
  it reaches at that moment.
\<close>

datatype payload =
    RegistrationConfirmed jsstring jsstring
  | ErrorNote jsstring
  | PlayersUpdate "player list"
  | PlayerJoined jsstring jsstring avatar jsnum jsnum
  | PlayerLeft jsstring
  | PlayerMoved jsstring jsnum jsnum int
  | ChatMessage int jsstring jsstring jsval int

datatype outbound =
    Unicast jsstring payload
  | Broadcast jsstring "jsstring list" payload

text \<open>
  The state: the two registries \<open>players\<close> and \<open>rooms\<close> of the source, and the state of the
  transport as its interface describes it: the connections that are open, the identities of
  the connections that were closed (an identity is never given twice), and for every
  transport room the connections that joined it.
\<close>

record server =
  players :: "(jsstring \<times> player) list"
  rooms :: "(jsstring \<times> jsstring list) list"
  sockets :: "jsstring list"
  gone :: "jsstring list"
  adapter :: "(jsstring \<times> jsstring list) list"

definition initial :: server where
  "initial = \<lparr>players = [], rooms = [], sockets = [], gone = [], adapter = []\<rparr>"

text \<open>
  The outcome of a handler: the state it leaves, what it emitted, in order, and the exception
  it threw, if any. A throw undoes nothing of what was done before it.
\<close>

record result =
  after :: server
  emitted :: "outbound list"
  thrown :: "error option"

definition returned :: "server \<Rightarrow> outbound list \<Rightarrow> result" where
  "returned w out = \<lparr>after = w, emitted = out, thrown = None\<rparr>"

definition threw :: "error \<Rightarrow> server \<Rightarrow> outbound list \<Rightarrow> result" where
  "threw e w out = \<lparr>after = w, emitted = out, thrown = Some e\<rparr>"

subsection \<open>Transport\<close>

text \<open>
  Modelled from the spec: the transport is the library the source requires (\<open>socket.io\<close>),
  not part of the source. The specification names its primitives: unicast to the originating
  connection, and room-scoped broadcast to all connections in a room, for \<open>socket.to\<close>
  except the originating one; connection identities are assigned by the transport and
  globally unique. \<open>in_room\<close> gives the connections in a transport room, none when the room
  does not exist.
\<close>

definition in_room :: "server \<Rightarrow> jsstring \<Rightarrow> jsstring list" where
  "in_room w r = (case Map_get (adapter w) r of None \<Rightarrow> [] | Some s \<Rightarrow> s)"

text \<open>Modelled from the spec: \<open>io.to(r)\<close> reaches every connection in the room.\<close>

definition io_to :: "server \<Rightarrow> jsstring \<Rightarrow> jsstring list" where
  "io_to w r = in_room w r"

text \<open>
  Modelled from the spec: \<open>socket.to(r)\<close> reaches the connections in the room except the
  sender. The library makes the exception through the room named by the sender's identity:
  it leaves out every connection that is in that room, which is the sender alone as long as
  no other connection has joined that room and the sender has not left it.
\<close>

definition socket_to :: "server \<Rightarrow> jsstring \<Rightarrow> jsstring \<Rightarrow> jsstring list" where
  "socket_to w sid r = filter (\<lambda>m. m \<notin> set (in_room w sid)) (in_room w r)"

text \<open>Modelled from the spec: \<open>socket.join(r)\<close> puts the connection in the room, made if absent.\<close>

definition socket_join :: "server \<Rightarrow> jsstring \<Rightarrow> jsstring \<Rightarrow> server" where
  "socket_join w sid r = w\<lparr>adapter := Map_set (adapter w) r (Set_add (in_room w r) sid)\<rparr>"

text \<open>
  Modelled from the spec: \<open>socket.leave(r)\<close> takes the connection out of the room; the
  transport drops a room that no connection is in.
\<close>

definition adapter_del :: "jsstring \<Rightarrow> (jsstring \<times> jsstring list) list \<Rightarrow> jsstring
    \<Rightarrow> (jsstring \<times> jsstring list) list" where
  "adapter_del sid a r =
     (case Map_get a r of
        None \<Rightarrow> a
      | Some s \<Rightarrow> if Set_delete s sid = [] then Map_delete a r else Map_set a r (Set_delete s sid))"

definition socket_leave :: "server \<Rightarrow> jsstring \<Rightarrow> jsstring \<Rightarrow> server" where
  "socket_leave w sid r = w\<lparr>adapter := adapter_del sid (adapter w) r\<rparr>"

text \<open>
  Modelled from the spec: a new connection. The library puts it in the room named by its own
  identity.
\<close>

definition connection :: "server \<Rightarrow> jsstring \<Rightarrow> server" where
  "connection w sid = socket_join (w\<lparr>sockets := Set_add (sockets w) sid\<rparr>) sid sid"

text \<open>
  Modelled from the spec: a closing connection. It has left all its transport rooms when the
  \<open>disconnect\<close> handler runs, and its identity is not given again.
\<close>

definition close :: "server \<Rightarrow> jsstring \<Rightarrow> server" where
  "close w sid =
     w\<lparr>sockets := Set_delete (sockets w) sid,
       gone := Set_add (gone w) sid,
       adapter := foldl (adapter_del sid) (adapter w) (map fst (adapter w))\<rparr>"

section \<open>The handlers\<close>

text \<open>
  \<open>player.room\<close> as a condition, \<open>if (player.room)\<close>: null is falsy, and so is the empty
  string. \<open>current_room\<close> is the room that passes the test.
\<close>

definition current_room :: "player \<Rightarrow> jsstring option" where
  "current_room p = (case room p of None \<Rightarrow> None | Some r \<Rightarrow> if r \<noteq> [] then Some r else None)"

text \<open>The members of a room in the Room Registry, none for a room that is not there.\<close>

definition listMembers :: "server \<Rightarrow> jsstring \<Rightarrow> jsstring list" where
  "listMembers w r = (case Map_get (rooms w) r of None \<Rightarrow> [] | Some members \<Rightarrow> members)"

text \<open>
  The block that \<open>join-room\<close>, \<open>leave-room\<close>, \<open>disconnect\<close> and the sweep all contain:
  \<^verbatim>\<open>const room = rooms.get(r);
  if (room) { room.delete(id);
    if (room.size === 0) rooms.delete(r); else socket.to(r).emit('player-left', id); }\<close>
  The sweep has no \<open>else\<close> branch: \<open>notify\<close> is false there.
\<close>

definition vacate :: "server \<Rightarrow> jsstring \<Rightarrow> jsstring \<Rightarrow> bool \<Rightarrow> server \<times> outbound list" where
  "vacate w sid r notify =
     (case Map_get (rooms w) r of
        None \<Rightarrow> (w, [])
      | Some members \<Rightarrow>
          if Set_delete members sid = [] then (w\<lparr>rooms := Map_delete (rooms w) r\<rparr>, [])
          else (w\<lparr>rooms := Map_set (rooms w) r (Set_delete members sid)\<rparr>,
                if notify then [Broadcast r (socket_to w sid r) (PlayerLeft sid)] else []))"

definition default_avatar :: avatar where
  "default_avatar = \<lparr>body = str ''#3b82f6'', head = str ''#fbbf24'', accessory = str ''none''\<rparr>"

definition register_player :: "server \<Rightarrow> jsstring \<Rightarrow> player_data \<Rightarrow> int \<Rightarrow> result" where
  "register_player w sid playerData now =
     (let player = \<lparr>player_id = sid,
                     username = (case data_username playerData of
                                   None \<Rightarrow> str ''Player_'' @ take 6 sid
                                 | Some u \<Rightarrow> if u \<noteq> [] then u else str ''Player_'' @ take 6 sid),
                     avatar = (case data_avatar playerData of
                                 None \<Rightarrow> default_avatar | Some a \<Rightarrow> a),
                     pos_x = Fin 50, pos_y = Fin 300, room = None, lastUpdate = now\<rparr>
      in returned (w\<lparr>players := Map_set (players w) sid player\<rparr>)
              [Unicast sid (RegistrationConfirmed sid (str ''Successfully registered!''))])"

text \<open>
  \<open>join-room\<close>. The roster is built from the member set of the room after the joiner was
  added: the other identities, in insertion order, each replaced by its player object, the
  identities without one dropped.
\<close>

definition roomPlayers :: "server \<Rightarrow> jsstring \<Rightarrow> jsstring \<Rightarrow> player list" where
  "roomPlayers w sid roomId =
     List.map_filter (Map_get (players w)) (filter (\<lambda>i. i \<noteq> sid) (listMembers w roomId))"

definition join_room :: "server \<Rightarrow> jsstring \<Rightarrow> jsstring \<Rightarrow> int \<Rightarrow> result" where
  "join_room w sid roomId now =
     (case Map_get (players w) sid of
        None \<Rightarrow> returned w [Unicast sid (ErrorNote (str ''Player not registered''))]
      | Some player \<Rightarrow>
          (let (w1, out1) =
                 (case current_room player of
                    None \<Rightarrow> (w, [])
                  | Some old \<Rightarrow> vacate (socket_leave w sid old) sid old True);
               w2 = socket_join w1 sid roomId;
               w3 = w2\<lparr>players :=
                         Map_set (players w2) sid (player\<lparr>room := Some roomId, lastUpdate := now\<rparr>)\<rparr>;
               w4 = w3\<lparr>rooms := Map_set (rooms w3) roomId (Set_add (listMembers w3 roomId) sid)\<rparr>
           in returned w4
                (out1 @
                 [Unicast sid (PlayersUpdate (roomPlayers w4 sid roomId)),
                  Broadcast roomId (socket_to w4 sid roomId)
                    (PlayerJoined (player_id player) (username player) (avatar player)
                       (pos_x player) (pos_y player))])))"

definition leave_room :: "server \<Rightarrow> jsstring \<Rightarrow> result" where
  "leave_room w sid =
     (case Map_get (players w) sid of
        None \<Rightarrow> returned w []
      | Some player \<Rightarrow>
          (case current_room player of
             None \<Rightarrow> returned w []
           | Some r \<Rightarrow>
               (let (w1, out) = vacate (socket_leave w sid r) sid r True
                in returned (w1\<lparr>players := Map_set (players w1) sid (player\<lparr>room := None\<rparr>)\<rparr>)
                     out)))"

text \<open>
  \<open>Math.max(0, Math.min(hi, v || 0))\<close> for \<open>v\<close> the \<open>x\<close> or \<open>y\<close> of the payload; \<open>Math.min\<close>
  converts \<open>v || 0\<close> to a number, which can throw.
\<close>

definition validate :: "real \<Rightarrow> jsval \<Rightarrow> error + jsnum" where
  "validate hi v =
     (case ToNumber (or_else v (Number (Fin 0))) of
        Inl e \<Rightarrow> Inl e
      | Inr n \<Rightarrow> Inr (Math_max (Fin 0) (Math_min (Fin hi) n)))"

definition player_move :: "server \<Rightarrow> jsstring \<Rightarrow> jsval \<Rightarrow> int \<Rightarrow> result" where
  "player_move w sid data now =
     (case Map_get (players w) sid of
        None \<Rightarrow> returned w []
      | Some player \<Rightarrow>
          (case current_room player of
             None \<Rightarrow> returned w []
           | Some r \<Rightarrow>
               (case get_prop data (str ''x'') of
                  Inl e \<Rightarrow> threw e w []
                | Inr vx \<Rightarrow>
                    (case validate 750 vx of
                       Inl e \<Rightarrow> threw e w []
                     | Inr x \<Rightarrow>
                         (case get_prop data (str ''y'') of
                            Inl e \<Rightarrow> threw e w []
                          | Inr vy \<Rightarrow>
                              (case validate 350 vy of
                                 Inl e \<Rightarrow> threw e w []
                               | Inr y \<Rightarrow>
                                   returned
                                     (w\<lparr>players :=
                                          Map_set (players w) sid
                                            (player\<lparr>pos_x := x, pos_y := y, lastUpdate := now\<rparr>)\<rparr>)
                                     [Broadcast r (socket_to w sid r)
                                        (PlayerMoved sid x y now)]))))))"

text \<open>
  \<open>chat-message\<close>. \<open>Date.now()\<close> is read twice, for \<open>id\<close> and for \<open>timestamp\<close>. The log line
  after the emission turns the message into a string, which can throw for an array.
\<close>

definition chat_message :: "server \<Rightarrow> jsstring \<Rightarrow> jsval \<Rightarrow> int \<Rightarrow> int \<Rightarrow> result" where
  "chat_message w sid data now now' =
     (case Map_get (players w) sid of
        None \<Rightarrow> returned w []
      | Some player \<Rightarrow>
          (case current_room player of
             None \<Rightarrow> returned w []
           | Some r \<Rightarrow>
               (case get_prop data (str ''message'') of
                  Inl e \<Rightarrow> threw e w []
                | Inr m \<Rightarrow>
                    (case slice_0_200 m of
                       Inl e \<Rightarrow> threw e w []
                     | Inr text \<Rightarrow>
                         \<lparr>after = w,
                          emitted = [Broadcast r (io_to w r)
                                       (ChatMessage now sid (username player) text now')],
                          thrown = (if ToString_throws text then Some TypeError else None)\<rparr>))))"

text \<open>\<open>disconnect\<close>: the handler proper; the transport has closed the connection before.\<close>

definition disconnect :: "server \<Rightarrow> jsstring \<Rightarrow> result" where
  "disconnect w sid =
     (case Map_get (players w) sid of
        None \<Rightarrow> returned w []
      | Some player \<Rightarrow>
          (let (w1, out) = (case current_room player of
                              None \<Rightarrow> (w, [])
                            | Some r \<Rightarrow> vacate w sid r True)
           in returned (w1\<lparr>players := Map_delete (players w1) sid\<rparr>) out))"

text \<open>
  The sweep that \<open>setInterval\<close> runs every five minutes. The loop visits the entries of
  \<open>players\<close>; an iteration deletes at most the entry it visits.
\<close>

definition timeout :: int where
  "timeout = 5 * 60 * 1000"

definition cleanup_entry :: "int \<Rightarrow> jsstring \<times> player \<Rightarrow> server \<Rightarrow> server" where
  "cleanup_entry now entry w =
     (case entry of
        (socketId, player) \<Rightarrow>
          if now - lastUpdate player > timeout then
            (let w1 = (case current_room player of
                         None \<Rightarrow> w
                       | Some r \<Rightarrow> fst (vacate w socketId r False))
             in w1\<lparr>players := Map_delete (players w1) socketId\<rparr>)
          else w)"

definition cleanup :: "server \<Rightarrow> int \<Rightarrow> result" where
  "cleanup w now = returned (fold (cleanup_entry now) (players w) w) []"

section \<open>Runs of the server\<close>

text \<open>
  What can happen to the server: a connection opens, an open connection sends one of the
  events or closes, the interval fires. \<open>save-game\<close> and \<open>get-games\<close> read \<open>players\<close> and touch
  neither registry; they are left out.
\<close>

datatype event =
    Connect jsstring
  | Register jsstring player_data int
  | Join jsstring jsstring int
  | Leave jsstring
  | Move jsstring jsval int
  | Chat jsstring jsval int int
  | Disconnect jsstring
  | Interval int

fun handle :: "server \<Rightarrow> event \<Rightarrow> result" where
  "handle w (Connect sid) = returned (connection w sid) []"
| "handle w (Register sid playerData now) = register_player w sid playerData now"
| "handle w (Join sid roomId now) = join_room w sid roomId now"
| "handle w (Leave sid) = leave_room w sid"
| "handle w (Move sid data now) = player_move w sid data now"
| "handle w (Chat sid data now now') = chat_message w sid data now now'"
| "handle w (Disconnect sid) = disconnect (close w sid) sid"
| "handle w (Interval now) = cleanup w now"

text \<open>
  A new connection gets an identity that no connection has or had; the other events come from
  an open connection.
\<close>

fun enabled :: "server \<Rightarrow> event \<Rightarrow> bool" where
  "enabled w (Connect sid) = (sid \<notin> set (sockets w) \<and> sid \<notin> set (gone w))"
| "enabled w (Register sid playerData now) = (sid \<in> set (sockets w))"
| "enabled w (Join sid roomId now) = (sid \<in> set (sockets w))"
| "enabled w (Leave sid) = (sid \<in> set (sockets w))"
| "enabled w (Move sid data now) = (sid \<in> set (sockets w))"
| "enabled w (Chat sid data now now') = (sid \<in> set (sockets w))"
| "enabled w (Disconnect sid) = (sid \<in> set (sockets w))"
| "enabled w (Interval now) = True"

fun run :: "server \<Rightarrow> event list \<Rightarrow> server" where
  "run w [] = w"
| "run w (e # es) = run (after (handle w e)) es"

fun valid_run :: "server \<Rightarrow> event list \<Rightarrow> bool" where
  "valid_run w [] = True"
| "valid_run w (e # es) = (enabled w e \<and> valid_run (after (handle w e)) es)"

inductive reachable :: "server \<Rightarrow> bool" where
  start: "reachable initial"
| step: "reachable w \<Longrightarrow> enabled w e \<Longrightarrow> reachable (after (handle w e))"

section \<open>Notions used by the properties\<close>

text \<open>\<open>rooms.has(r)\<close>: the room key is present.\<close>

definition Map_has :: "('k \<times> 'v) list \<Rightarrow> 'k \<Rightarrow> bool" where
  "Map_has m k \<longleftrightarrow> Map_get m k \<noteq> None"

text \<open>
  The property of the registries that the specification words: the \<open>room\<close> of a player is not
  null iff the player's identity is in the member set of exactly one room.
\<close>

definition one_room_per_player :: "server \<Rightarrow> bool" where
  "one_room_per_player w \<longleftrightarrow>
     (\<forall>k p. Map_get (players w) k = Some p \<longrightarrow>
        (room p \<noteq> None \<longleftrightarrow> (\<exists>!r. k \<in> set (listMembers w r))))"

text \<open>The test of the sweep: the last update is more than the timeout ago.\<close>

definition inactive :: "int \<Rightarrow> player \<Rightarrow> bool" where
  "inactive now player \<longleftrightarrow> now - lastUpdate player > timeout"

text \<open>The values that have a \<open>slice\<close> method: strings and arrays.\<close>

fun has_slice :: "jsval \<Rightarrow> bool" where
  "has_slice (String s) = True"
| "has_slice (Array xs) = True"
| "has_slice v = False"


text \<open>
  The current members of a room: the identities in its member set whose connection is open.
\<close>

definition current_members :: "server \<Rightarrow> jsstring \<Rightarrow> jsstring list" where
  "current_members w r = filter (\<lambda>m. m \<in> set (sockets w)) (listMembers w r)"

text \<open>
  The specification's wording of \<open>disconnect\<close>: \<open>leaveRoom\<close>, then the Player entry is removed;
  nothing happens for a connection that never registered. The result is what the claim
  compares: the Player Registry, the Room Registry and the emitted events.
\<close>

definition disconnect_spec :: "server \<Rightarrow> jsstring
    \<Rightarrow> (jsstring \<times> player) list \<times> (jsstring \<times> jsstring list) list \<times> outbound list" where
  "disconnect_spec w sid =
     (case Map_get (players w) sid of
        None \<Rightarrow> (players w, rooms w, [])
      | Some p \<Rightarrow>
          (let res = leave_room w sid
           in (Map_delete (players (after res)) sid, rooms (after res), emitted res)))"

subsection \<open>Invariants of the runs\<close>

text \<open>No room of the registry has an empty member set.\<close>

definition rooms_populated :: "server \<Rightarrow> bool" where
  "rooms_populated w \<longleftrightarrow> (\<forall>r ms. Map_get (rooms w) r = Some ms \<longrightarrow> ms \<noteq> [])"


text \<open>The keys of the Player Registry are distinct, as the keys of a \<open>Map\<close> are.\<close>

definition distinct_keys :: "server \<Rightarrow> bool" where
  "distinct_keys w \<longleftrightarrow> distinct (map fst (players w))"

text \<open>A player whose \<open>room\<close> is not null is in the member set of that room.\<close>

definition room_is_member :: "server \<Rightarrow> bool" where
  "room_is_member w \<longleftrightarrow>
     (\<forall>k p r. Map_get (players w) k = Some p \<longrightarrow> room p = Some r \<longrightarrow> k \<in> set (listMembers w r))"

text \<open>The state after the first step of \<open>join-room\<close>, leaving the room the player is in.\<close>

definition left_previous :: "server \<Rightarrow> jsstring \<Rightarrow> player \<Rightarrow> server" where
  "left_previous w sid p =
     (case current_room p of
        None \<Rightarrow> w
      | Some old \<Rightarrow> fst (vacate (socket_leave w sid old) sid old True))"

subsection \<open>Example runs\<close>

text \<open>A registration payload without user name and avatar.\<close>

definition anonymous :: player_data where
  "anonymous = \<lparr>data_username = None, data_avatar = None\<rparr>"

text \<open>Connection \<open>a\<close> opens, registers at time 0 and joins room \<open>r1\<close> at time 1.\<close>

definition lobby :: server where
  "lobby = run initial [Connect (str ''a''), Register (str ''a'') anonymous 0,
                         Join (str ''a'') (str ''r1'') 1]"

text \<open>The player object of \<open>a\<close> in \<open>lobby\<close>.\<close>

definition player_a :: player where
  "player_a = \<lparr>player_id = str ''a'', username = str ''Player_a'', avatar = default_avatar,
                pos_x = Fin 50, pos_y = Fin 300, room = Some (str ''r1''), lastUpdate = 1\<rparr>"

text \<open>After \<open>lobby\<close>, \<open>a\<close> registers again, at time 2.\<close>

definition reregistered :: server where
  "reregistered = after (register_player lobby (str ''a'') anonymous 2)"

text \<open>After \<open>lobby\<close>, connection \<open>b\<close> opens and registers at time 3.\<close>

definition waiting :: server where
  "waiting = run initial [Connect (str ''a''), Register (str ''a'') anonymous 0,
                           Join (str ''a'') (str ''r1'') 1,
                           Connect (str ''b''), Register (str ''b'') anonymous 3]"

text \<open>The player object of \<open>b\<close> in \<open>waiting\<close>.\<close>

definition player_b :: player where
  "player_b = \<lparr>player_id = str ''b'', username = str ''Player_b'', avatar = default_avatar,
                pos_x = Fin 50, pos_y = Fin 300, room = None, lastUpdate = 3\<rparr>"

text \<open>After \<open>waiting\<close>, \<open>b\<close> joins room \<open>r1\<close> at time 4: both players are in \<open>r1\<close>.\<close>

definition duo :: server where
  "duo = run waiting [Join (str ''b'') (str ''r1'') 4]"

text \<open>
  Connections \<open>a\<close> and \<open>b\<close> open and register; then both join the room named \<open>a\<close>, the
  identity of the first connection.
\<close>

definition namesake :: server where
  "namesake = run initial [Connect (str ''a''), Register (str ''a'') anonymous 0,
                            Connect (str ''b''), Register (str ''b'') anonymous 1,
                            Join (str ''a'') (str ''a'') 2, Join (str ''b'') (str ''a'') 3]"

text \<open>
  Connection \<open>a\<close> opens and registers, joins the room named by its own identity, leaves it,
  and joins \<open>r1\<close>.
\<close>

definition loner :: server where
  "loner = run initial [Connect (str ''a''), Register (str ''a'') anonymous 0,
                         Join (str ''a'') (str ''a'') 1, Leave (str ''a''),
                         Join (str ''a'') (str ''r1'') 2]"

text \<open>Connection \<open>a\<close> opens, registers at time 0 and joins the room named by the empty string.\<close>

definition nameless :: server where
  "nameless = run initial [Connect (str ''a''), Register (str ''a'') anonymous 0,
                            Join (str ''a'') [] 1]"

section \<open>Basic facts\<close>

lemma str_eq_iff [simp]: "str a = str b \<longleftrightarrow> a = b"
proof -
  have "inj (\<lambda>c::char. (of_nat (of_char c) :: 16 word))"
  proof (rule injI)
    fix a b :: char
    assume h: "(of_nat (of_char a) :: 16 word) = of_nat (of_char b)"
    have "(of_char a :: nat) < 2 ^ 16" "(of_char b :: nat) < 2 ^ 16"
      by (rule order_less_trans [OF nat_of_char_less_256], simp)+
    then have "(of_char a :: nat) = of_char b" using h
      by (simp add: word_of_nat_eq_iff take_bit_nat_eq_self)
    then show "a = b" by simp
  qed
  then show ?thesis
    unfolding str_def by (rule inj_map_eq_map)
qed

lemma str_Nil_iff [simp]: "str s = [] \<longleftrightarrow> s = []" "[] = str s \<longleftrightarrow> s = []"
  by (auto simp add: str_def)

subsection \<open>Map and Set\<close>

lemma Map_get_Map_set [simp]:
  "Map_get (Map_set m k v) k' = (if k' = k then Some v else Map_get m k')"
  by (simp add: Map_get_def Map_set_def update_conv')

lemma Map_get_Map_delete [simp]:
  "Map_get (Map_delete m k) k' = (if k' = k then None else Map_get m k')"
  by (simp add: Map_get_def Map_delete_def delete_conv')

lemma set_Set_add [simp]: "set (Set_add s a) = insert a (set s)"
  by (auto simp add: Set_add_def)

lemma Set_add_not_Nil [simp]: "Set_add s a \<noteq> []"
  by (auto simp add: Set_add_def)

lemma set_Set_delete [simp]: "set (Set_delete s a) = set s - {a}"
  by (simp add: Set_delete_def)

lemma Set_delete_idem [simp]: "Set_delete (Set_delete s a) a = Set_delete s a"
  by (simp add: Set_delete_def)

lemma Set_delete_Nil [simp]: "Set_delete [] a = []"
  by (simp add: Set_delete_def)

lemma filter_Set_delete [simp]: "filter (\<lambda>m. m \<noteq> a) (Set_delete s a) = filter (\<lambda>m. m \<noteq> a) s"
  by (induction s) (simp_all add: Set_delete_def)

subsection \<open>Transport\<close>

lemma socket_join_fields [simp]:
  "players (socket_join w sid r) = players w"
  "rooms (socket_join w sid r) = rooms w"
  "sockets (socket_join w sid r) = sockets w"
  "gone (socket_join w sid r) = gone w"
  by (simp_all add: socket_join_def)

lemma socket_leave_fields [simp]:
  "players (socket_leave w sid r) = players w"
  "rooms (socket_leave w sid r) = rooms w"
  "sockets (socket_leave w sid r) = sockets w"
  "gone (socket_leave w sid r) = gone w"
  by (simp_all add: socket_leave_def)

lemma in_room_cong: "adapter w = adapter w' \<Longrightarrow> in_room w r = in_room w' r"
  by (simp add: in_room_def)

lemma listMembers_cong: "rooms w = rooms w' \<Longrightarrow> listMembers w r = listMembers w' r"
  by (simp add: listMembers_def)

lemma in_room_socket_join [simp]:
  "in_room (socket_join w sid r) r' = (if r' = r then Set_add (in_room w r) sid else in_room w r')"
  by (simp add: socket_join_def in_room_def)

lemma Map_get_adapter_del:
  "Map_get (adapter_del sid a r) r' =
     (if r' = r then (case Map_get a r of None \<Rightarrow> None
                      | Some s \<Rightarrow> if Set_delete s sid = [] then None else Some (Set_delete s sid))
      else Map_get a r')"
  by (simp add: adapter_del_def split: option.splits)

lemma in_room_socket_leave [simp]:
  "in_room (socket_leave w sid r) r' = (if r' = r then Set_delete (in_room w r) sid else in_room w r')"
  by (simp add: socket_leave_def in_room_def Map_get_adapter_del split: option.splits)

lemma Map_get_foldl_adapter_del:
  "Map_get (foldl (adapter_del sid) a ks) r =
     (if r \<in> set ks then (case Map_get a r of None \<Rightarrow> None
                           | Some s \<Rightarrow> if Set_delete s sid = [] then None else Some (Set_delete s sid))
      else Map_get a r)"
proof (induction ks arbitrary: a)
  case Nil
  then show ?case by simp
next
  case (Cons k ks)
  show ?case
    by (simp add: Cons.IH Map_get_adapter_del split: option.splits)
qed

lemma Map_get_None_iff: "Map_get m k = None \<longleftrightarrow> k \<notin> set (map fst m)"
  by (simp add: Map_get_def map_of_eq_None_iff)

lemma close_fields [simp]:
  "players (close w sid) = players w"
  "rooms (close w sid) = rooms w"
  "sockets (close w sid) = Set_delete (sockets w) sid"
  "gone (close w sid) = Set_add (gone w) sid"
  by (simp_all add: close_def)

lemma in_room_close [simp]: "in_room (close w sid) r = Set_delete (in_room w r) sid"
proof (cases "Map_get (adapter w) r")
  case None
  then show ?thesis
    by (simp add: close_def in_room_def Map_get_foldl_adapter_del)
next
  case (Some s)
  then have "r \<in> set (map fst (adapter w))"
    using Map_get_None_iff [of "adapter w" r] by simp
  with Some show ?thesis
    by (simp add: close_def in_room_def Map_get_foldl_adapter_del)
qed

lemma connection_fields [simp]:
  "players (connection w sid) = players w"
  "rooms (connection w sid) = rooms w"
  "sockets (connection w sid) = Set_add (sockets w) sid"
  "gone (connection w sid) = gone w"
  by (simp_all add: connection_def)

lemma in_room_connection [simp]:
  "in_room (connection w sid) r = (if r = sid then Set_add (in_room w r) sid else in_room w r)"
  by (simp add: connection_def in_room_def socket_join_def)

subsection \<open>Leaving a room of the registry\<close>

lemma vacate_fields [simp]:
  "players (fst (vacate w sid r n)) = players w"
  "sockets (fst (vacate w sid r n)) = sockets w"
  "gone (fst (vacate w sid r n)) = gone w"
  "adapter (fst (vacate w sid r n)) = adapter w"
  by (simp_all add: vacate_def split: option.splits)

lemma Map_get_rooms_vacate:
  "Map_get (rooms (fst (vacate w sid r n))) r' =
     (if r' = r then (case Map_get (rooms w) r of None \<Rightarrow> None
                      | Some ms \<Rightarrow> if Set_delete ms sid = [] then None else Some (Set_delete ms sid))
      else Map_get (rooms w) r')"
  by (simp add: vacate_def split: option.splits)

lemma listMembers_vacate [simp]:
  "listMembers (fst (vacate w sid r n)) r' =
     (if r' = r then Set_delete (listMembers w r) sid else listMembers w r')"
  by (simp add: listMembers_def Map_get_rooms_vacate split: option.splits)

lemma in_room_vacate [simp]: "in_room (fst (vacate w sid r n)) r' = in_room w r'"
  by (simp add: in_room_def)

lemma snd_vacate:
  "snd (vacate w sid r n) =
     (if n \<and> Set_delete (listMembers w r) sid \<noteq> []
      then [Broadcast r (socket_to w sid r) (PlayerLeft sid)] else [])"
  by (simp add: vacate_def listMembers_def split: option.splits)

section \<open>What the handlers do to the state\<close>

lemma current_room_SomeD: "current_room p = Some r \<Longrightarrow> room p = Some r \<and> r \<noteq> []"
  by (auto simp add: current_room_def split: option.splits if_splits)

lemma listMembers_rooms_update [simp]:
  "listMembers (w\<lparr>rooms := Map_set rs r ms\<rparr>) r' =
     (if r' = r then ms else listMembers (w\<lparr>rooms := rs\<rparr>) r')"
  "listMembers (w\<lparr>rooms := Map_delete rs r\<rparr>) r' =
     (if r' = r then [] else listMembers (w\<lparr>rooms := rs\<rparr>) r')"
  "listMembers (w\<lparr>rooms := rooms w'\<rparr>) r' = listMembers w' r'"
  by (simp_all add: listMembers_def)

lemma listMembers_transport [simp]:
  "listMembers (socket_join w sid r) r' = listMembers w r'"
  "listMembers (socket_leave w sid r) r' = listMembers w r'"
  "listMembers (connection w sid) r' = listMembers w r'"
  "listMembers (close w sid) r' = listMembers w r'"
  by (simp_all add: listMembers_def)

lemma listMembers_players_update [simp]:
  "listMembers (w\<lparr>players := ps\<rparr>) r = listMembers w r"
  by (simp add: listMembers_def)

lemma in_room_players_update [simp]: "in_room (w\<lparr>players := ps\<rparr>) r = in_room w r"
  by (simp add: in_room_def)

lemma in_room_rooms_update [simp]: "in_room (w\<lparr>rooms := rs\<rparr>) r = in_room w r"
  by (simp add: in_room_def)

lemma left_previous_fields [simp]:
  "players (left_previous w sid p) = players w"
  "sockets (left_previous w sid p) = sockets w"
  "gone (left_previous w sid p) = gone w"
  by (simp_all add: left_previous_def split: option.splits)

lemma listMembers_left_previous:
  "listMembers (left_previous w sid p) r =
     (if current_room p = Some r then Set_delete (listMembers w r) sid else listMembers w r)"
  by (auto simp add: left_previous_def split: option.splits)

lemma in_room_left_previous:
  "in_room (left_previous w sid p) r =
     (if current_room p = Some r then Set_delete (in_room w r) sid else in_room w r)"
  by (auto simp add: left_previous_def split: option.splits)

lemma Map_get_rooms_left_previous:
  "Map_get (rooms (left_previous w sid p)) r =
     (if current_room p = Some r
      then (case Map_get (rooms w) r of None \<Rightarrow> None
            | Some ms \<Rightarrow> if Set_delete ms sid = [] then None else Some (Set_delete ms sid))
      else Map_get (rooms w) r)"
  by (auto simp add: left_previous_def Map_get_rooms_vacate split: option.splits)

lemma after_join_room:
  assumes "Map_get (players w) sid = Some p"
  shows "after (join_room w sid r now) =
     (let w2 = socket_join (left_previous w sid p) sid r
      in w2\<lparr>players := Map_set (players w) sid (p\<lparr>room := Some r, lastUpdate := now\<rparr>),
            rooms := Map_set (rooms w2) r (Set_add (listMembers w2 r) sid)\<rparr>)"
  using assms
  by (simp add: join_room_def left_previous_def returned_def Let_def split_beta
      split: option.splits)


lemma join_room_state:
  assumes "Map_get (players w) sid = Some p"
  shows "Map_get (players (after (join_room w sid r now))) k =
           (if k = sid then Some (p\<lparr>room := Some r, lastUpdate := now\<rparr>) else Map_get (players w) k)"
    and "set (listMembers (after (join_room w sid r now)) r') =
           (if r' = r then insert sid (set (listMembers w r'))
            else if current_room p = Some r' then set (listMembers w r') - {sid}
            else set (listMembers w r'))"
    and "set (in_room (after (join_room w sid r now)) r') =
           (if r' = r then insert sid (set (in_room w r'))
            else if current_room p = Some r' then set (in_room w r') - {sid}
            else set (in_room w r'))"
    and "sockets (after (join_room w sid r now)) = sockets w"
    and "gone (after (join_room w sid r now)) = gone w"
  by (auto simp add: after_join_room [OF assms] Let_def listMembers_left_previous
      in_room_left_previous)


lemma after_register_player:
  "\<exists>p. after (register_player w sid playerData now) = w\<lparr>players := Map_set (players w) sid p\<rparr>
       \<and> room p = None \<and> player_id p = sid"
  unfolding register_player_def returned_def Let_def
  by (intro exI conjI) (rule result.select_convs, simp_all)

lemma after_leave_room:
  "after (leave_room w sid) =
     (case Map_get (players w) sid of
        None \<Rightarrow> w
      | Some p \<Rightarrow>
          (case current_room p of
             None \<Rightarrow> w
           | Some r \<Rightarrow> (fst (vacate (socket_leave w sid r) sid r True))
                         \<lparr>players := Map_set (players w) sid (p\<lparr>room := None\<rparr>)\<rparr>))"
  by (simp add: leave_room_def returned_def split_beta split: option.splits)

lemma after_player_move:
  "after (player_move w sid data now) = w \<or>
   (\<exists>p x y. Map_get (players w) sid = Some p \<and>
      after (player_move w sid data now)
      = w\<lparr>players := Map_set (players w) sid (p\<lparr>pos_x := x, pos_y := y, lastUpdate := now\<rparr>)\<rparr>)"
  by (auto simp add: player_move_def returned_def threw_def split: option.splits sum.splits)

lemma after_chat_message [simp]: "after (chat_message w sid data now now') = w"
  by (simp add: chat_message_def returned_def threw_def split: option.splits sum.splits)

lemma after_disconnect:
  "after (disconnect w sid) =
     (case Map_get (players w) sid of
        None \<Rightarrow> w
      | Some p \<Rightarrow>
          (case current_room p of None \<Rightarrow> w | Some r \<Rightarrow> fst (vacate w sid r True))
          \<lparr>players := Map_delete (players w) sid\<rparr>)"
  by (simp add: disconnect_def returned_def split_beta split: option.splits)

lemma cleanup_entry_eq:
  "cleanup_entry now (k, p) w =
     (if now - lastUpdate p > timeout
      then (case current_room p of None \<Rightarrow> w | Some r \<Rightarrow> fst (vacate w k r False))
           \<lparr>players := Map_delete (players w) k\<rparr>
      else w)"
  by (simp add: cleanup_entry_def Let_def split: option.splits)

section \<open>Invariants\<close>

subsection \<open>No room of the registry is empty\<close>

lemma rooms_populated_cong: "rooms w' = rooms w \<Longrightarrow> rooms_populated w' = rooms_populated w"
  by (simp add: rooms_populated_def)

lemma rooms_populated_vacate: "rooms_populated w \<Longrightarrow> rooms_populated (fst (vacate w sid r n))"
  by (auto simp add: rooms_populated_def Map_get_rooms_vacate split: option.splits if_splits)

lemma rooms_populated_players [simp]: "rooms_populated (w\<lparr>players := ps\<rparr>) = rooms_populated w"
  by (simp add: rooms_populated_def)

lemma rooms_populated_left_previous:
  "rooms_populated w \<Longrightarrow> rooms_populated (left_previous w sid p)"
  by (auto simp add: left_previous_def rooms_populated_vacate
      rooms_populated_cong [of "socket_leave w sid r" w for r] split: option.splits)

lemma rooms_populated_join_room:
  assumes "rooms_populated w"
  shows "rooms_populated (after (join_room w sid r now))"
proof (cases "Map_get (players w) sid")
  case None
  with assms show ?thesis by (simp add: join_room_def returned_def)
next
  case (Some p)
  have "rooms_populated (left_previous w sid p)"
    using assms by (rule rooms_populated_left_previous)
  then show ?thesis
    by (auto simp add: after_join_room [OF Some] Let_def rooms_populated_def split: if_splits)
qed

lemma rooms_populated_cleanup_entry:
  "rooms_populated w \<Longrightarrow> rooms_populated (cleanup_entry now e w)"
  by (cases e) (auto simp add: cleanup_entry_eq rooms_populated_vacate split: option.splits)

lemma rooms_populated_fold:
  "rooms_populated w \<Longrightarrow> rooms_populated (fold (cleanup_entry now) es w)"
  by (induction es arbitrary: w) (simp_all add: rooms_populated_cleanup_entry)

lemma rooms_populated_handle:
  assumes "rooms_populated w"
  shows "rooms_populated (after (handle w e))"
proof (cases e)
  case (Connect sid)
  with assms show ?thesis
    by (simp add: returned_def rooms_populated_cong [of "connection w sid" w])
next
  case (Register sid playerData now)
  with assms after_register_player [of w sid playerData now] show ?thesis
    by auto
next
  case (Join sid roomId now)
  with assms show ?thesis by (simp add: rooms_populated_join_room)
next
  case (Leave sid)
  with assms show ?thesis
    by (auto simp add: after_leave_room rooms_populated_vacate
        rooms_populated_cong [of "socket_leave w sid r" w for r] split: option.splits)
next
  case (Move sid data now)
  with assms after_player_move [of w sid data now] show ?thesis
    by auto
next
  case (Chat sid data now now')
  with assms show ?thesis by simp
next
  case (Disconnect sid)
  have "rooms_populated (close w sid)"
    using assms by (simp add: rooms_populated_cong [of "close w sid" w])
  with Disconnect show ?thesis
    by (auto simp add: after_disconnect rooms_populated_vacate split: option.splits)
next
  case (Interval now)
  with assms show ?thesis
    by (simp add: cleanup_def returned_def rooms_populated_fold)
qed

lemma rooms_populated_initial: "rooms_populated initial"
  by (simp add: rooms_populated_def initial_def Map_get_def)

lemma reachable_rooms_populated: "reachable w \<Longrightarrow> rooms_populated w"
  by (induction rule: reachable.induct) (simp_all add: rooms_populated_initial rooms_populated_handle)


subsection \<open>Every player entry belongs to an open connection\<close>






subsection \<open>The keys of the Player Registry are distinct\<close>

lemma distinct_Map_set: "distinct (map fst m) \<Longrightarrow> distinct (map fst (Map_set m k v))"
  by (simp add: Map_set_def distinct_update)

lemma distinct_Map_delete: "distinct (map fst m) \<Longrightarrow> distinct (map fst (Map_delete m k))"
  by (simp add: Map_delete_def distinct_delete)

lemma distinct_keys_cleanup_entry: "distinct_keys w \<Longrightarrow> distinct_keys (cleanup_entry now e w)"
  by (cases e)
    (auto simp add: cleanup_entry_eq distinct_keys_def distinct_Map_delete split: option.splits)

lemma distinct_keys_fold: "distinct_keys w \<Longrightarrow> distinct_keys (fold (cleanup_entry now) es w)"
  by (induction es arbitrary: w) (simp_all add: distinct_keys_cleanup_entry)

lemma distinct_keys_handle:
  assumes "distinct_keys w"
  shows "distinct_keys (after (handle w e))"
proof (cases e)
  case (Connect sid)
  with assms show ?thesis by (simp add: returned_def distinct_keys_def)
next
  case (Register sid playerData now)
  with assms after_register_player [of w sid playerData now] show ?thesis
    by (auto simp add: distinct_keys_def distinct_Map_set)
next
  case (Join sid roomId now)
  show ?thesis
  proof (cases "Map_get (players w) sid")
    case None
    with assms Join show ?thesis by (simp add: join_room_def returned_def)
  next
    case (Some p)
    with assms Join show ?thesis
      by (simp add: after_join_room [OF Some] Let_def distinct_keys_def distinct_Map_set)
  qed
next
  case (Leave sid)
  with assms show ?thesis
    by (auto simp add: after_leave_room distinct_keys_def distinct_Map_set split: option.splits)
next
  case (Move sid data now)
  with assms after_player_move [of w sid data now] show ?thesis
    by (auto simp add: distinct_keys_def distinct_Map_set)
next
  case (Chat sid data now now')
  with assms show ?thesis by simp
next
  case (Disconnect sid)
  with assms show ?thesis
    by (auto simp add: after_disconnect distinct_keys_def distinct_Map_delete split: option.splits)
next
  case (Interval now)
  with assms show ?thesis
    by (simp add: cleanup_def returned_def distinct_keys_fold)
qed

lemma reachable_distinct_keys: "reachable w \<Longrightarrow> distinct_keys w"
  by (induction rule: reachable.induct)
    (simp_all add: distinct_keys_handle, simp add: distinct_keys_def initial_def)

subsection \<open>A player with a room is a member of it\<close>

lemma room_is_member_cleanup_entry:
  "room_is_member w \<Longrightarrow> room_is_member (cleanup_entry now e w)"
  by (cases e)
    (auto simp add: cleanup_entry_eq room_is_member_def split: option.splits if_splits)

lemma room_is_member_fold:
  "room_is_member w \<Longrightarrow> room_is_member (fold (cleanup_entry now) es w)"
  by (induction es arbitrary: w) (simp_all add: room_is_member_cleanup_entry)

lemma room_is_member_handle:
  assumes "room_is_member w"
  shows "room_is_member (after (handle w e))"
proof (cases e)
  case (Connect sid)
  with assms show ?thesis by (simp add: returned_def room_is_member_def)
next
  case (Register sid playerData now)
  obtain p where "after (register_player w sid playerData now)
                  = w\<lparr>players := Map_set (players w) sid p\<rparr>" and "room p = None"
    using after_register_player [of w sid playerData now] by blast
  with assms Register show ?thesis
    by (auto simp add: room_is_member_def split: if_splits)
next
  case (Join sid roomId now)
  show ?thesis
  proof (cases "Map_get (players w) sid")
    case None
    with assms Join show ?thesis by (simp add: join_room_def returned_def)
  next
    case (Some p)
    with assms Join show ?thesis
      by (auto simp add: room_is_member_def join_room_state [OF Some] split: if_splits)
  qed
next
  case (Leave sid)
  with assms show ?thesis
    by (auto simp add: after_leave_room room_is_member_def split: option.splits if_splits)
next
  case (Move sid data now)
  from after_player_move [of w sid data now] show ?thesis
  proof (elim disjE exE conjE)
    assume "after (player_move w sid data now) = w"
    with assms Move show ?thesis by simp
  next
    fix p x y
    assume "Map_get (players w) sid = Some p"
      and "after (player_move w sid data now)
           = w\<lparr>players := Map_set (players w) sid (p\<lparr>pos_x := x, pos_y := y, lastUpdate := now\<rparr>)\<rparr>"
    with assms Move show ?thesis
      by (auto simp add: room_is_member_def split: if_splits)
  qed
next
  case (Chat sid data now now')
  with assms show ?thesis by simp
next
  case (Disconnect sid)
  with assms show ?thesis
    by (auto simp add: after_disconnect room_is_member_def split: option.splits if_splits)
next
  case (Interval now)
  with assms show ?thesis
    by (simp add: cleanup_def returned_def room_is_member_fold)
qed

lemma reachable_room_is_member: "reachable w \<Longrightarrow> room_is_member w"
proof (induction rule: reachable.induct)
  case start
  show ?case by (simp add: room_is_member_def initial_def Map_get_def)
next
  case (step w e)
  then show ?case by (simp add: room_is_member_handle)
qed

section \<open>The example runs\<close>

lemma lobby_player: "Map_get (players lobby) (str ''a'') = Some player_a"
  by code_simp

lemma current_room_player_a: "current_room player_a = Some (str ''r1'')"
  by (simp add: current_room_def player_a_def)

lemma reachable_run: "reachable w \<Longrightarrow> valid_run w es \<Longrightarrow> reachable (run w es)"
  by (induction es arbitrary: w) (auto intro: reachable.step)

lemma reachable_lobby: "reachable lobby"
  unfolding lobby_def by (rule reachable_run [OF reachable.start]) code_simp

lemma reachable_nameless: "reachable nameless"
  unfolding nameless_def by (rule reachable_run [OF reachable.start]) code_simp

lemma reachable_waiting: "reachable waiting"
  unfolding waiting_def by (rule reachable_run [OF reachable.start]) code_simp


lemma length_str [simp]: "length (str s) = length s"
  by (simp add: str_def)

lemma reachable_duo: "reachable duo"
  unfolding duo_def by (rule reachable_run [OF reachable_waiting]) code_simp

lemma duo_player_a: "Map_get (players duo) (str ''a'') = Some player_a"
  by code_simp

section \<open>Membership of a player in the rooms\<close>

text \<open>
  C1 says that in every reachable state the \<open>room\<close> of a player is not null iff the player is
  in the member set of exactly one room, also after \<open>register-player\<close> has overwritten the
  entry of a player who is a member of a room. The code does not do this: \<open>register-player\<close>
  stores an object whose \<open>room\<close> is null and leaves the member sets alone. In \<open>lobby\<close> player
  \<open>a\<close> has the room \<open>r1\<close> and is its member; in the reachable state \<open>reregistered\<close> the
  \<open>room\<close> of \<open>a\<close> is null while \<open>a\<close> still is a member of \<open>r1\<close>.
\<close>

theorem register_player_keeps_membership:
  "reachable reregistered \<and>
   map_option room (Map_get (players lobby) (str ''a'')) = Some (Some (str ''r1'')) \<and>
   listMembers lobby (str ''r1'') = [str ''a''] \<and>
   map_option room (Map_get (players reregistered) (str ''a'')) = Some None \<and>
   listMembers reregistered (str ''r1'') = [str ''a'']"
proof -
  have "enabled lobby (Register (str ''a'') anonymous 2)"
    by code_simp
  with reachable_lobby have "reachable (after (handle lobby (Register (str ''a'') anonymous 2)))"
    by (rule reachable.step)
  then have "reachable reregistered"
    by (simp add: reregistered_def)
  moreover have "map_option room (Map_get (players lobby) (str ''a'')) = Some (Some (str ''r1''))"
    by code_simp
  moreover have "listMembers lobby (str ''r1'') = [str ''a'']"
    by code_simp
  moreover have "map_option room (Map_get (players reregistered) (str ''a'')) = Some None"
    by code_simp
  moreover have "listMembers reregistered (str ''r1'') = [str ''a'']"
    by code_simp
  ultimately show ?thesis by simp
qed

text \<open>So the property as the specification words it fails in a reachable state.\<close>

lemma reachable_reregistered: "reachable reregistered"
proof -
  have "enabled lobby (Register (str ''a'') anonymous 2)"
    by code_simp
  with reachable_lobby have "reachable (after (handle lobby (Register (str ''a'') anonymous 2)))"
    by (rule reachable.step)
  then show ?thesis by (simp add: reregistered_def)
qed

lemma one_room_per_player_fails: "reachable reregistered \<and> \<not> one_room_per_player reregistered"
proof -
  have rooms: "rooms reregistered = [(str ''r1'', [str ''a''])]"
    by code_simp
  have "map_option room (Map_get (players reregistered) (str ''a'')) = Some None"
    by code_simp
  then obtain p where p: "Map_get (players reregistered) (str ''a'') = Some p" "room p = None"
    by auto
  have "\<exists>!r. str ''a'' \<in> set (listMembers reregistered r)"
  proof
    show "str ''a'' \<in> set (listMembers reregistered (str ''r1''))"
      by (simp add: listMembers_def Map_get_def rooms)
  next
    fix r
    assume "str ''a'' \<in> set (listMembers reregistered r)"
    then show "r = str ''r1''"
      by (simp add: listMembers_def Map_get_def rooms split: if_splits)
  qed
  with p have "\<not> one_room_per_player reregistered"
    unfolding one_room_per_player_def by blast
  with reachable_reregistered show ?thesis by simp
qed

text \<open>
  One half of the property does hold in every reachable state of this model (user names
  are strings), \<open>reachable_room_is_member\<close>: a player whose \<open>room\<close> is not null is a member
  of that room. The other half fails a second
  way. The test \<open>if (player.room)\<close> takes the room named by the
  empty string for no room, so a player who joined it never leaves it: after joining \<open>r1\<close> the
  player is a member of both rooms.
\<close>

lemma join_room_keeps_nameless_room:
  "map_option room (Map_get (players nameless) (str ''a'')) = Some (Some []) \<and>
   listMembers nameless [] = [str ''a''] \<and>
   listMembers (after (join_room nameless (str ''a'') (str ''r1'') 2)) [] = [str ''a''] \<and>
   listMembers (after (join_room nameless (str ''a'') (str ''r1'') 2)) (str ''r1'') = [str ''a'']"
  by code_simp

section \<open>Rooms exist while they have members\<close>

text \<open>
  C2. In every state the server can reach, by any sequence of events (\<open>join-room\<close>,
  \<open>leave-room\<close>, \<open>disconnect\<close> and the sweep among them), a room key is present in the Room
  Registry iff the member set of the room is not empty; and a \<open>join-room\<close> of a registered
  player leaves the room present with the joiner among its members.
\<close>

theorem room_present_iff_populated:
  assumes "reachable w"
  shows "(Map_has (rooms w) r \<longleftrightarrow> listMembers w r \<noteq> []) \<and>
         (Map_get (players w) sid = Some p \<longrightarrow>
            Map_has (rooms (after (join_room w sid roomId now))) roomId \<and>
            sid \<in> set (listMembers (after (join_room w sid roomId now)) roomId))"
proof (intro conjI impI)
  have "rooms_populated w"
    using assms by (rule reachable_rooms_populated)
  then show "Map_has (rooms w) r \<longleftrightarrow> listMembers w r \<noteq> []"
    by (auto simp add: Map_has_def listMembers_def rooms_populated_def split: option.splits)
next
  assume p: "Map_get (players w) sid = Some p"
  show "Map_has (rooms (after (join_room w sid roomId now))) roomId"
    by (simp add: after_join_room [OF p] Let_def Map_has_def)
next
  assume p: "Map_get (players w) sid = Some p"
  show "sid \<in> set (listMembers (after (join_room w sid roomId now)) roomId)"
    by (simp add: join_room_state [OF p])
qed

theorem room_present_iff_populated_witness:
  "reachable lobby \<and>
   Map_get (players lobby) (str ''a'') = Some player_a \<and>
   Map_has (rooms lobby) (str ''r1'') \<and>
   listMembers lobby (str ''r1'') = [str ''a''] \<and>
   \<not> Map_has (rooms lobby) (str ''r2'') \<and>
   listMembers lobby (str ''r2'') = [] \<and>
   Map_has (rooms (after (join_room lobby (str ''a'') (str ''r2'') 5))) (str ''r2'') \<and>
   str ''a'' \<in> set (listMembers (after (join_room lobby (str ''a'') (str ''r2'') 5)) (str ''r2''))"
proof -
  have l1: "listMembers lobby (str ''r1'') = [str ''a'']" by code_simp
  have l2: "listMembers lobby (str ''r2'') = []" by code_simp
  show ?thesis
    using room_present_iff_populated [OF reachable_lobby, of "str ''r1''" "str ''a''" player_a "str ''r2''" 5]
      room_present_iff_populated [OF reachable_lobby, of "str ''r2''" "str ''a''" player_a "str ''r2''" 5]
    by (simp add: reachable_lobby lobby_player l1 l2)
qed


section \<open>player-move\<close>

text \<open>
  What the two validation lines compute: a number is clamped, a falsy value becomes 0, and
  whatever the payload holds the result is in the range or NaN; it is NaN exactly when the
  conversion of \<open>v || 0\<close> to a number is.
\<close>

lemma validate_number:
  "0 \<le> hi \<Longrightarrow> validate hi (Number (Fin r)) = Inr (Fin (max 0 (min hi r)))"
  by (auto simp add: validate_def or_else_def Math_min_def Math_max_def)

lemma validate_falsy: "0 \<le> hi \<Longrightarrow> \<not> ToBoolean v \<Longrightarrow> validate hi v = Inr (Fin 0)"
  by (simp add: validate_def or_else_def Math_min_def Math_max_def)

lemma Math_max_min_range:
  "0 \<le> hi \<Longrightarrow> Math_max (Fin 0) (Math_min (Fin hi) n) = NaN
     \<or> (\<exists>r. Math_max (Fin 0) (Math_min (Fin hi) n) = Fin r \<and> 0 \<le> r \<and> r \<le> hi)"
  by (cases n) (auto simp add: Math_min_def Math_max_def)

lemma validate_range:
  assumes "0 \<le> hi" and "validate hi v = Inr n"
  shows "n = NaN \<or> (\<exists>r. n = Fin r \<and> 0 \<le> r \<and> r \<le> hi)"
proof (cases "ToNumber (or_else v (Number (Fin 0)))")
  case (Inl e)
  with assms(2) show ?thesis by (simp add: validate_def)
next
  case (Inr m)
  with assms(2) have "n = Math_max (Fin 0) (Math_min (Fin hi) m)"
    by (simp add: validate_def)
  with Math_max_min_range [OF assms(1), of m] show ?thesis by simp
qed

lemma validate_NaN_iff:
  "validate hi v = Inr NaN \<longleftrightarrow> ToNumber (or_else v (Number (Fin 0))) = Inr NaN"
proof (cases "ToNumber (or_else v (Number (Fin 0)))")
  case (Inl e)
  then show ?thesis by (simp add: validate_def)
next
  case (Inr m)
  then show ?thesis
    by (cases m) (simp_all add: validate_def Math_min_def Math_max_def)
qed

text \<open>
  C3 says that the stored \<open>x\<close> is in [0,750] and the stored \<open>y\<close> in [0,350] whatever the
  payload holds, values that are not numbers counting as 0. The code does not do this: a
  truthy value that is not a number passes \<open>data.x || 0\<close> unchanged, \<open>Math.min\<close> converts it
  to NaN, and NaN passes through \<open>Math.min\<close> and \<open>Math.max\<close>. For \<open>x = "abc"\<close>, sent by the
  player of \<open>lobby\<close>, the stored and the broadcast \<open>x\<close> are NaN.
\<close>

theorem player_move_stores_NaN:
  "map_option pos_x
     (Map_get (players (after (player_move lobby (str ''a'')
        (Object [(str ''x'', String (str ''abc'')), (str ''y'', Number (Fin 10))]) 5))) (str ''a''))
   = Some NaN \<and>
   emitted (player_move lobby (str ''a'')
        (Object [(str ''x'', String (str ''abc'')), (str ''y'', Number (Fin 10))]) 5)
   = [Broadcast (str ''r1'') [] (PlayerMoved (str ''a'') NaN (Fin 10) 5)]"
  by code_simp

section \<open>join-room from an unregistered connection\<close>

text \<open>
  C4. When the sender of \<open>join-room\<close> has no entry in the Player Registry, the handler sends
  the error notification to the sender alone and returns the state it was given: neither
  registry is touched, and nothing is thrown.
\<close>

theorem join_room_unregistered:
  assumes "Map_get (players w) sid = None"
  shows "join_room w sid roomId now
         = \<lparr>after = w, emitted = [Unicast sid (ErrorNote (str ''Player not registered''))],
            thrown = None\<rparr>"
  using assms by (simp add: join_room_def returned_def)

theorem join_room_unregistered_witness:
  "Map_get (players initial) (str ''a'') = None \<and>
   join_room initial (str ''a'') (str ''r1'') 7
     = \<lparr>after = initial,
        emitted = [Unicast (str ''a'') (ErrorNote (str ''Player not registered''))],
        thrown = None\<rparr>"
  using join_room_unregistered [of initial "str ''a''" "str ''r1''" 7]
  by (simp add: initial_def Map_get_def)

section \<open>chat-message\<close>

text \<open>
  C8. A player is in a room for the handler when the test \<open>player.room\<close> passes. For such a
  registered player and a payload whose \<open>message\<close> is a string, the handler emits one
  chat message, to the player's room; its text is the payload's text when that has at most 200
  code units and its first 200 code units otherwise. The message is stored nowhere else: the
  state is returned as it was.
\<close>

theorem chat_message_truncates:
  assumes "Map_get (players w) sid = Some p"
    and "current_room p = Some r"
    and "get_prop data (str ''message'') = Inr (String text)"
  shows "chat_message w sid data now now'
         = \<lparr>after = w,
            emitted = [Broadcast r (io_to w r)
                         (ChatMessage now sid (username p)
                            (String (if length text \<le> 200 then text else take 200 text)) now')],
            thrown = None\<rparr>"
  using assms by (simp add: chat_message_def)

theorem chat_message_truncates_witness:
  "Map_get (players lobby) (str ''a'') = Some player_a \<and>
   current_room player_a = Some (str ''r1'') \<and>
   get_prop (Object [(str ''message'', String (replicate 201 0x61))]) (str ''message'')
     = Inr (String (replicate 201 0x61)) \<and>
   chat_message lobby (str ''a'') (Object [(str ''message'', String (replicate 201 0x61))]) 5 6
   = \<lparr>after = lobby,
      emitted = [Broadcast (str ''r1'') (io_to lobby (str ''r1''))
                   (ChatMessage 5 (str ''a'') (str ''Player_a'') (String (replicate 200 0x61)) 6)],
      thrown = None\<rparr>"
  using chat_message_truncates [OF lobby_player current_room_player_a,
      of "Object [(str ''message'', String (replicate 201 0x61))]" "replicate 201 0x61" 5 6]
  by (simp add: lobby_player current_room_def player_a_def)

text \<open>
  C10. For a registered player in a room (the test \<open>player.room\<close> passes) and a payload
  that has no \<open>message\<close> with a \<open>slice\<close> method (the payload is undefined or null, or it has
  no \<open>message\<close>, or the \<open>message\<close> is neither a string nor an array), the handler throws a
  \<open>TypeError\<close>; it has emitted nothing and the state, both registries included, is as it was.
\<close>

theorem chat_message_throws:
  assumes "Map_get (players w) sid = Some p"
    and "current_room p = Some r"
    and "\<forall>m. get_prop data (str ''message'') = Inr m \<longrightarrow> \<not> has_slice m"
  shows "chat_message w sid data now now' = \<lparr>after = w, emitted = [], thrown = Some TypeError\<rparr>"
proof (cases "get_prop data (str ''message'')")
  case (Inl e)
  with assms(1,2) show ?thesis
    by (cases e) (simp add: chat_message_def threw_def)
next
  case (Inr m)
  with assms(3) have "\<not> has_slice m" by simp
  then have "slice_0_200 m = Inl TypeError"
    by (cases m) simp_all
  with Inr assms(1,2) show ?thesis
    by (simp add: chat_message_def threw_def)
qed

theorem chat_message_throws_witness:
  "Map_get (players lobby) (str ''a'') = Some player_a \<and>
   current_room player_a = Some (str ''r1'') \<and>
   get_prop (Object []) (str ''message'') = Inr Undefined \<and>
   chat_message lobby (str ''a'') (Object []) 5 6
   = \<lparr>after = lobby, emitted = [], thrown = Some TypeError\<rparr>"
  using chat_message_throws [OF lobby_player current_room_player_a, of "Object []" 5 6]
  by (simp add: lobby_player current_room_player_a)

section \<open>join-room of a registered player\<close>

lemma filter_Set_add [simp]: "filter (\<lambda>m. m \<noteq> a) (Set_add s a) = filter (\<lambda>m. m \<noteq> a) s"
  by (simp add: Set_add_def)







section \<open>disconnect\<close>

lemma rooms_vacate_cong:
  "rooms w1 = rooms w2 \<Longrightarrow> rooms (fst (vacate w1 sid r n)) = rooms (fst (vacate w2 sid r n))"
  by (simp add: vacate_def split: option.splits)

lemma socket_to_close:
  "socket_to (close w sid) sid r = socket_to (socket_leave w sid r) sid r"
  unfolding socket_to_def
  by (rule filter_cong) auto

lemma Map_delete_Map_set [simp]: "Map_delete (Map_set m k v) k = Map_delete m k"
  by (simp add: Map_delete_def Map_set_def delete_update_same)

text \<open>
  C6. When a connection closes, the Player Registry, the Room Registry and the emitted events
  are those of \<open>leaveRoom\<close> for the player followed by the removal of the Player entry, as
  \<open>disconnect_spec\<close> words it; for a connection without a Player entry both registries stay
  as they are and nothing is emitted.
\<close>

theorem disconnect_refines_leave_room:
  "(players (after (handle w (Disconnect sid))), rooms (after (handle w (Disconnect sid))),
    emitted (handle w (Disconnect sid))) = disconnect_spec w sid
   \<and> (Map_get (players w) sid = None \<longrightarrow>
        players (after (handle w (Disconnect sid))) = players w \<and>
        rooms (after (handle w (Disconnect sid))) = rooms w \<and>
        emitted (handle w (Disconnect sid)) = [])"
proof (cases "Map_get (players w) sid")
  case None
  then show ?thesis
    by (simp add: disconnect_spec_def disconnect_def returned_def)
next
  case (Some p)
  show ?thesis
  proof (cases "current_room p")
    case None
    with Some show ?thesis
      by (simp add: disconnect_spec_def disconnect_def leave_room_def returned_def)
  next
    case (Some r)
    have "rooms (fst (vacate (close w sid) sid r True))
          = rooms (fst (vacate (socket_leave w sid r) sid r True))"
      by (rule rooms_vacate_cong) simp
    moreover have "snd (vacate (close w sid) sid r True)
          = snd (vacate (socket_leave w sid r) sid r True)"
      by (simp add: snd_vacate socket_to_close)
    ultimately show ?thesis
      using Some \<open>Map_get (players w) sid = Some p\<close>
      by (simp add: disconnect_spec_def disconnect_def leave_room_def returned_def split_beta)
  qed
qed

theorem disconnect_refines_leave_room_witness:
  "(players (after (handle duo (Disconnect (str ''a'')))),
    rooms (after (handle duo (Disconnect (str ''a'')))),
    emitted (handle duo (Disconnect (str ''a''))))
   = disconnect_spec duo (str ''a'') \<and>
   disconnect_spec duo (str ''a'')
   = ([(str ''b'', player_b\<lparr>room := Some (str ''r1''), lastUpdate := 4\<rparr>)],
      [(str ''r1'', [str ''b''])],
      [Broadcast (str ''r1'') [str ''b''] (PlayerLeft (str ''a''))]) \<and>
   Map_get (players duo) (str ''c'') = None \<and>
   players (after (handle duo (Disconnect (str ''c'')))) = players duo \<and>
   rooms (after (handle duo (Disconnect (str ''c'')))) = rooms duo \<and>
   emitted (handle duo (Disconnect (str ''c''))) = []"
proof -
  have "disconnect_spec duo (str ''a'')
   = ([(str ''b'', player_b\<lparr>room := Some (str ''r1''), lastUpdate := 4\<rparr>)],
      [(str ''r1'', [str ''b''])],
      [Broadcast (str ''r1'') [str ''b''] (PlayerLeft (str ''a''))])"
    by code_simp
  moreover have "Map_get (players duo) (str ''c'') = None"
    by code_simp
  ultimately show ?thesis
    using disconnect_refines_leave_room [of duo "str ''a''"]
      disconnect_refines_leave_room [of duo "str ''c''"]
    by simp
qed

section \<open>The sweep of inactive players\<close>

text \<open>
  What the sweep does: it emits nothing; it removes the entries of the inactive players and
  leaves the other entries as they are; from the member set of a room it removes the
  inactive players whose \<open>room\<close> passes the test \<open>player.room\<close> and names that room. (By
  \<open>rooms_populated\<close> a room whose member set this empties is gone.)
\<close>

lemma cleanup_entry_players:
  "players (cleanup_entry now (k, p) w) =
     (if inactive now p then Map_delete (players w) k else players w)"
  by (simp add: cleanup_entry_eq inactive_def split: option.splits)

lemma cleanup_entry_listMembers:
  "listMembers (cleanup_entry now (k, p) w) r =
     (if inactive now p \<and> current_room p = Some r then Set_delete (listMembers w r) k
      else listMembers w r)"
  by (auto simp add: cleanup_entry_eq inactive_def split: option.splits)

lemma Map_delete_filter: "Map_delete m k = filter (\<lambda>e. fst e \<noteq> k) m"
  by (auto simp add: Map_delete_def AList.delete_eq intro: filter_cong)

lemma fold_cleanup_players:
  "players (fold (cleanup_entry now) es w) =
     filter (\<lambda>e. \<not> (\<exists>p. (fst e, p) \<in> set es \<and> inactive now p)) (players w)"
proof (induction es arbitrary: w)
  case Nil
  show ?case by simp
next
  case (Cons e es)
  obtain k p where e: "e = (k, p)" by (cases e)
  show ?case
    unfolding e
    by (auto simp add: Cons.IH cleanup_entry_players Map_delete_filter intro: filter_cong)
qed

lemma fold_cleanup_listMembers:
  "listMembers (fold (cleanup_entry now) es w) r =
     filter (\<lambda>m. \<not> (\<exists>p. (m, p) \<in> set es \<and> inactive now p \<and> current_room p = Some r))
       (listMembers w r)"
proof (induction es arbitrary: w)
  case Nil
  show ?case by simp
next
  case (Cons e es)
  obtain k p where e: "e = (k, p)" by (cases e)
  show ?case
    unfolding e
    by (auto simp add: Cons.IH cleanup_entry_listMembers Set_delete_def removeAll_filter_not_eq
        intro: filter_cong)
qed


lemma distinct_keys_entry:
  "distinct_keys w \<Longrightarrow> (k, p) \<in> set (players w) \<longleftrightarrow> Map_get (players w) k = Some p"
  by (simp add: distinct_keys_def Map_get_def)

lemma cleanup_players:
  assumes "distinct_keys w"
  shows "players (after (cleanup w now)) = filter (\<lambda>e. \<not> inactive now (snd e)) (players w)"
proof -
  have "\<And>e. e \<in> set (players w) \<Longrightarrow>
          (\<exists>p. (fst e, p) \<in> set (players w) \<and> inactive now p) \<longleftrightarrow> inactive now (snd e)"
  proof -
    fix e
    assume "e \<in> set (players w)"
    then have "Map_get (players w) (fst e) = Some (snd e)"
      using distinct_keys_entry [OF assms, of "fst e" "snd e"] by simp
    then show "(\<exists>p. (fst e, p) \<in> set (players w) \<and> inactive now p) \<longleftrightarrow> inactive now (snd e)"
      by (auto simp add: distinct_keys_entry [OF assms])
  qed
  then have "filter (\<lambda>e. \<not> (\<exists>p. (fst e, p) \<in> set (players w) \<and> inactive now p)) (players w)
             = filter (\<lambda>e. \<not> inactive now (snd e)) (players w)"
    by (intro filter_cong refl) simp
  then show ?thesis
    by (simp add: cleanup_def returned_def fold_cleanup_players)
qed

lemma cleanup_listMembers:
  assumes "distinct_keys w"
  shows "listMembers (after (cleanup w now)) r =
           filter (\<lambda>m. \<not> (\<exists>p. Map_get (players w) m = Some p \<and> inactive now p
                                \<and> current_room p = Some r))
             (listMembers w r)"
  by (simp add: cleanup_def returned_def fold_cleanup_listMembers distinct_keys_entry [OF assms])

lemma cleanup_silent: "emitted (cleanup w now) = [] \<and> thrown (cleanup w now) = None"
  by (simp add: cleanup_def returned_def)

text \<open>
  C7 says that the sweep removes every inactive player from the member set of its room,
  deletes the room when that empties it, and removes the player's entry, without emitting
  anything. The code does not do the first for every player: the sweep tests
  \<open>if (player.room)\<close>, which takes the room named by the empty string for no room. In
  \<open>nameless\<close> player \<open>a\<close> has that room and was last updated at time 1; the sweep at time
  300002 removes the entry of \<open>a\<close> and emits nothing, but \<open>a\<close> stays in the member set of the
  room and the room stays in the Room Registry.
\<close>

theorem cleanup_keeps_nameless_member:
  "map_option (\<lambda>p. (room p, lastUpdate p)) (Map_get (players nameless) (str ''a''))
   = Some (Some [], 1) \<and>
   players (after (cleanup nameless 300002)) = [] \<and>
   rooms (after (cleanup nameless 300002)) = [([], [str ''a''])] \<and>
   emitted (cleanup nameless 300002) = []"
  by code_simp

text \<open>
  The member that \<open>register-player\<close> left behind in \<open>reregistered\<close> stays in its room in
  the same way: the \<open>room\<close> of the player is null when the sweep removes the entry.
\<close>

lemma cleanup_keeps_reregistered_member:
  "players (after (cleanup reregistered 300003)) = [] \<and>
   rooms (after (cleanup reregistered 300003)) = [(str ''r1'', [str ''a''])]"
  by code_simp

section \<open>Who receives a room broadcast\<close>

text \<open>
  C9 says that a \<open>chat-message\<close> goes to every current member of the room, the sender
  included, and a \<open>player-moved\<close> to every current member but the sender. The code does not
  do the second for every room: \<open>player-move\<close> emits through \<open>socket.to(player.room)\<close>, which
  leaves out every connection in the room named by the sender's identity, and \<open>join-room\<close>
  accepts that name as a room. In \<open>namesake\<close> both \<open>a\<close> and \<open>b\<close> are current members of the
  room named \<open>a\<close>; the \<open>player-moved\<close> of \<open>a\<close> goes to nobody, while the chat message of \<open>a\<close>
  goes to both.
\<close>

theorem player_moved_skips_member:
  "reachable namesake \<and>
   map_option current_room (Map_get (players namesake) (str ''a'')) = Some (Some (str ''a'')) \<and>
   current_members namesake (str ''a'') = [str ''a'', str ''b''] \<and>
   emitted (player_move namesake (str ''a'')
              (Object [(str ''x'', Number (Fin 10)), (str ''y'', Number (Fin 20))]) 5)
   = [Broadcast (str ''a'') [] (PlayerMoved (str ''a'') (Fin 10) (Fin 20) 5)] \<and>
   emitted (chat_message namesake (str ''a'') (Object [(str ''message'', String (str ''hi''))]) 6 7)
   = [Broadcast (str ''a'') [str ''a'', str ''b'']
        (ChatMessage 6 (str ''a'') (str ''Player_a'') (String (str ''hi'')) 7)]"
proof -
  have "reachable namesake"
    unfolding namesake_def by (rule reachable_run [OF reachable.start]) code_simp
  moreover have
    "map_option current_room (Map_get (players namesake) (str ''a'')) = Some (Some (str ''a''))"
    by code_simp
  moreover have "current_members namesake (str ''a'') = [str ''a'', str ''b'']"
    by code_simp
  moreover have "emitted (player_move namesake (str ''a'')
              (Object [(str ''x'', Number (Fin 10)), (str ''y'', Number (Fin 20))]) 5)
   = [Broadcast (str ''a'') [] (PlayerMoved (str ''a'') (Fin 10) (Fin 20) 5)]"
    by code_simp
  moreover have
    "emitted (chat_message namesake (str ''a'') (Object [(str ''message'', String (str ''hi''))]) 6 7)
     = [Broadcast (str ''a'') [str ''a'', str ''b'']
          (ChatMessage 6 (str ''a'') (str ''Player_a'') (String (str ''hi'')) 7)]"
    by code_simp
  ultimately show ?thesis by simp
qed

text \<open>
  The exception fails the other way too. In \<open>loner\<close> connection \<open>a\<close> has joined and left the
  room named by its own identity, so it is in no room of that name any more; it then joined
  \<open>r1\<close>, and its own \<open>player-moved\<close> comes back to it.
\<close>

lemma player_moved_echo:
  "reachable loner \<and>
   current_members loner (str ''r1'') = [str ''a''] \<and>
   emitted (player_move loner (str ''a'')
              (Object [(str ''x'', Number (Fin 10)), (str ''y'', Number (Fin 20))]) 5)
   = [Broadcast (str ''r1'') [str ''a''] (PlayerMoved (str ''a'') (Fin 10) (Fin 20) 5)]"
proof -
  have "reachable loner"
    unfolding loner_def by (rule reachable_run [OF reachable.start]) code_simp
  moreover have "current_members loner (str ''r1'') = [str ''a'']"
    by code_simp
  moreover have "emitted (player_move loner (str ''a'')
              (Object [(str ''x'', Number (Fin 10)), (str ''y'', Number (Fin 20))]) 5)
   = [Broadcast (str ''r1'') [str ''a''] (PlayerMoved (str ''a'') (Fin 10) (Fin 20) 5)]"
    by code_simp
  ultimately show ?thesis by simp
qed

end
